theory Spec2Isabelle
  imports Complex_Main
begin

section \<open>Values, errors and calendar dates\<close>

text \<open>
  The calculator of \<^verbatim>\<open>src/app/calculator.py\<close> works on Python ints and floats. Ints are
  modelled as \<^typ>\<open>int\<close>; floats are modelled as exact rationals (\<^typ>\<open>rat\<close>), so
  \<^verbatim>\<open>1.1\<close> is \<open>11/10\<close> and every arithmetic operation is the exact one. An exception
  raised by the Python code is a value \<open>Inl e\<close> of the result type \<open>py_error + 'a\<close>.
\<close>

datatype py_error = TypeError | ValueError | IndexError | ZeroDivisionError | OverflowError

text \<open>
  The source passes dates around as text \<^verbatim>\<open>dd/mm/yyyy\<close> (or \<^verbatim>\<open>yyyy-mm-dd\<close> after
  \<^verbatim>\<open>process_date\<close>) and reads the three numbers back with \<^verbatim>\<open>split\<close> and \<^verbatim>\<open>int\<close>.
  A date is modelled by these three numbers; \<^verbatim>\<open>datetime.datetime(year, month, day)\<close>
  raises \<^verbatim>\<open>ValueError\<close> unless they form a calendar date (\<open>valid_date\<close>).
\<close>

datatype date = Date (day: int) (month: int) (year: int)

definition is_leap :: "int \<Rightarrow> bool" where
  "is_leap y = (y mod 4 = 0 \<and> (if y mod 100 = 0 then y mod 400 = 0 else True))"

definition days_in_month :: "int \<Rightarrow> int \<Rightarrow> int" where
  "days_in_month y m =
     (if m = 2 then (if is_leap y then 29 else 28)
      else if m = 4 \<or> m = 6 \<or> m = 9 \<or> m = 11 then 30 else 31)"

definition valid_date :: "date \<Rightarrow> bool" where
  "valid_date dt =
     (1 \<le> year dt \<and> year dt \<le> 9999 \<and> 1 \<le> month dt \<and> month dt \<le> 12 \<and>
      1 \<le> day dt \<and> day dt \<le> days_in_month (year dt) (month dt))"

text \<open>Python's proleptic Gregorian ordinal (\<^verbatim>\<open>date.toordinal\<close>) and \<^verbatim>\<open>weekday\<close>
  (Monday is 0, Sunday is 6).\<close>

definition days_before_year :: "int \<Rightarrow> int" where
  "days_before_year y = (y - 1) * 365 + (y - 1) div 4 - (y - 1) div 100 + (y - 1) div 400"

definition days_before_month :: "int \<Rightarrow> int \<Rightarrow> int" where
  "days_before_month y m =
     [0, 31, 59, 90, 120, 151, 181, 212, 243, 273, 304, 334] ! nat (m - 1)
       + (if 2 < m \<and> is_leap y then 1 else 0)"

definition toordinal :: "date \<Rightarrow> int" where
  "toordinal dt = days_before_year (year dt) + days_before_month (year dt) (month dt) + day dt"

definition weekday :: "date \<Rightarrow> int" where
  "weekday dt = (toordinal dt + 6) mod 7"

text \<open>Comparison of two \<^verbatim>\<open>datetime\<close> values at midnight: by year, then month, then day.\<close>

definition date_le :: "date \<Rightarrow> date \<Rightarrow> bool" where
  "date_le a b =
     (year a < year b \<or> (year a = year b \<and>
        (month a < month b \<or> (month a = month b \<and> day a \<le> day b))))"

section \<open>The environment: data file and remote providers\<close>

text \<open>
  The term-date file \<^verbatim>\<open>data/termdates.json\<close> and the three remote services are not part
  of the source; they are parameters of the model. \<open>termdates\<close> is the list under the key
  \<^verbatim>\<open>"data"\<close>: one entry per state with its list of (term start, term end) pairs.
  \<open>public_holidays\<close> is the registry's answer: \<open>None\<close> when the response is not ok,
  otherwise its records (date, jurisdiction). \<open>locations\<close> answers a postcode with the
  (name, id) records of its suburbs, \<open>weather\<close> answers a location id and a date; both
  are \<open>None\<close> when the response is not ok. \<open>today\<close> is \<^verbatim>\<open>datetime.datetime.now().date()\<close>.
\<close>

record weather_data =
  sunrise :: "int \<times> int \<times> int"
  sunset :: "int \<times> int \<times> int"
  sunHours :: rat
  hourlyWeatherHistory :: "(int \<times> rat) list"

record env =
  today :: date
  termdates :: "(string \<times> (date \<times> date) list) list"
  public_holidays :: "(date \<times> string) list option"
  locations :: "int \<Rightarrow> (string \<times> string) list option"
  weather :: "string \<Rightarrow> date \<Rightarrow> weather_data option"

section \<open>Tariffs and charging time\<close>

text \<open>\<^verbatim>\<open>get_power\<close>: charger configuration to (power in kW, price in cents per kWh).\<close>

definition get_power :: "int \<Rightarrow> rat \<times> rat" where
  "get_power charger_configuration =
     (if charger_configuration = 1 then (2, 5)
      else if charger_configuration = 2 then (36 / 10, 75 / 10)
      else if charger_configuration = 3 then (72 / 10, 10)
      else if charger_configuration = 4 then (11, 125 / 10)
      else if charger_configuration = 5 then (22, 15)
      else if charger_configuration = 6 then (36, 20)
      else if charger_configuration = 7 then (90, 30)
      else (350, 50))"

text \<open>
  Python's \<^verbatim>\<open>round(x, n)\<close> rounds to \<open>n\<close> decimal places, a tie going to the even
  neighbour; \<^verbatim>\<open>int(x)\<close> on a float truncates toward zero.
\<close>

definition round_half_even :: "rat \<Rightarrow> int" where
  "round_half_even x =
     (let f = \<lfloor>x\<rfloor>; r = x - of_int f in
      if r < 1 / 2 then f
      else if 1 / 2 < r then f + 1
      else if even f then f else f + 1)"

definition py_round :: "rat \<Rightarrow> nat \<Rightarrow> rat" where
  "py_round x n = of_int (round_half_even (x * 10 ^ n)) / 10 ^ n"

definition py_int :: "rat \<Rightarrow> int" where
  "py_int x = (if 0 \<le> x then \<lfloor>x\<rfloor> else \<lceil>x\<rceil>)"

text \<open>\<^verbatim>\<open>time_calculation\<close>: minutes needed to charge; dividing by a zero power raises.\<close>

definition time_calculation :: "int \<Rightarrow> int \<Rightarrow> int \<Rightarrow> rat \<Rightarrow> py_error + rat" where
  "time_calculation initial_state final_state capacity power_kw =
     (if power_kw = 0 then Inl ZeroDivisionError
      else
        let time = (of_int final_state - of_int initial_state) / 100 * of_int capacity / power_kw
        in Inr (py_round (time * 60) 2))"

text \<open>\<^verbatim>\<open>is_peak\<close>, \<^verbatim>\<open>get_minute_from_start_time\<close> (a start time \<^verbatim>\<open>HH:MM\<close> is the pair of
  its two numbers) and \<^verbatim>\<open>convert_time_to_minutes_passed\<close> (a time \<^verbatim>\<open>HH:MM:SS\<close> is the
  triple of its numbers).\<close>

definition is_peak :: "int \<Rightarrow> bool" where
  "is_peak inputMinute = (360 \<le> inputMinute \<and> inputMinute < 1080)"

definition get_minute_from_start_time :: "int \<times> int \<Rightarrow> int" where
  "get_minute_from_start_time start_time = fst start_time * 60 + snd start_time"

definition convert_time_to_minutes_passed :: "int \<times> int \<times> int \<Rightarrow> int" where
  "convert_time_to_minutes_passed time = fst time * 60 + fst (snd time)"

section \<open>Surcharge of a date\<close>

text \<open>\<^verbatim>\<open>is_date_weekday\<close>: Monday to Friday.\<close>

definition is_date_weekday :: "date \<Rightarrow> py_error + bool" where
  "is_date_weekday dt = (if valid_date dt then Inr (weekday dt < 5) else Inl ValueError)"

text \<open>
  \<^verbatim>\<open>is_date_in_school_term\<close>: the inner loop over the term ranges of one state
  (\<open>Inr True\<close> is the early \<^verbatim>\<open>return True\<close>), and the outer loop over the entries of the
  file. The given date is only parsed for an entry of the given state.
\<close>

fun date_in_ranges :: "date \<Rightarrow> (date \<times> date) list \<Rightarrow> py_error + bool" where
  "date_in_ranges current_date [] = Inr False"
| "date_in_ranges current_date ((term_start_date, term_end_date) # ds) =
     (if \<not> valid_date term_start_date then Inl ValueError
      else if \<not> valid_date term_end_date then Inl ValueError
      else if date_le term_start_date current_date \<and> date_le current_date term_end_date
        then Inr True
      else date_in_ranges current_date ds)"

fun school_term_scan :: "date \<Rightarrow> string \<Rightarrow> (string \<times> (date \<times> date) list) list \<Rightarrow> py_error + bool"
where
  "school_term_scan dt state [] = Inr False"
| "school_term_scan dt state ((info_state, info_dates) # data) =
     (if info_state = state then
        (if \<not> valid_date dt then Inl ValueError
         else case date_in_ranges dt info_dates of
             Inl e \<Rightarrow> Inl e
           | Inr found \<Rightarrow> if found then Inr True else school_term_scan dt state data)
      else school_term_scan dt state data)"

definition is_date_in_school_term :: "env \<Rightarrow> date \<Rightarrow> string \<Rightarrow> py_error + bool" where
  "is_date_in_school_term E dt state = school_term_scan dt state (termdates E)"

text \<open>
  \<^verbatim>\<open>get_date_data\<close>: the jurisdictions with a public holiday on the date; \<open>None\<close> is
  the value \<^verbatim>\<open>-1\<close> returned when the registry gave no ok response.
\<close>

definition get_date_data :: "env \<Rightarrow> date \<Rightarrow> string list option" where
  "get_date_data E dt =
     (case public_holidays E of
        None \<Rightarrow> None
      | Some records \<Rightarrow> Some (map snd (filter (\<lambda>obj. fst obj = dt) records)))"

text \<open>The postcode ranges of \<^verbatim>\<open>get_date_surcharge\<close>; \<open>None\<close> is the raised and caught
  \<^verbatim>\<open>InvalidInputException\<close>.\<close>

definition postcode_state :: "int \<Rightarrow> string option" where
  "postcode_state code =
     (if (2000 \<le> code \<and> code \<le> 2599) \<or> (2619 \<le> code \<and> code \<le> 2899) \<or> (2921 \<le> code \<and> code \<le> 2999)
        then Some ''nsw''
      else if (2600 \<le> code \<and> code \<le> 2618) \<or> (2900 \<le> code \<and> code \<le> 2920) then Some ''act''
      else if 3000 \<le> code \<and> code \<le> 3999 then Some ''vic''
      else if 4000 \<le> code \<and> code \<le> 4999 then Some ''qld''
      else if 5000 \<le> code \<and> code \<le> 5799 then Some ''sa''
      else if 6000 \<le> code \<and> code \<le> 6797 then Some ''wa''
      else if 7000 \<le> code \<and> code \<le> 7799 then Some ''tas''
      else if 800 \<le> code \<and> code \<le> 899 then Some ''nt''
      else None)"

text \<open>
  \<^verbatim>\<open>get_date_surcharge\<close>. The test \<^verbatim>\<open>not in_term or is_weekday\<close> evaluates its second
  operand only when the first is false. \<^verbatim>\<open>state in states_list\<close> raises \<^verbatim>\<open>TypeError\<close>
  when \<^verbatim>\<open>get_date_data\<close> returned \<^verbatim>\<open>-1\<close>.
\<close>

definition get_date_surcharge :: "env \<Rightarrow> date \<Rightarrow> int \<Rightarrow> py_error + rat" where
  "get_date_surcharge E dt code =
     (case postcode_state code of
        None \<Rightarrow> Inr (- 1)
      | Some state \<Rightarrow>
         (case is_date_in_school_term E dt state of
            Inl e \<Rightarrow> Inl e
          | Inr in_term \<Rightarrow>
             if \<not> in_term then Inr (11 / 10)
             else (case is_date_weekday dt of
                Inl e \<Rightarrow> Inl e
              | Inr is_weekday \<Rightarrow>
                 if is_weekday then Inr (11 / 10)
                 else (case get_date_data E dt of
                    None \<Rightarrow> Inl TypeError
                  | Some states_list \<Rightarrow>
                     if state \<in> set states_list then Inr (11 / 10) else Inr 1))))"

section \<open>Day rollover\<close>

text \<open>
  \<^verbatim>\<open>get_next_date\<close>: the date plus \<^verbatim>\<open>timedelta(days=1)\<close>; the addition overflows after
  31/12/9999.
\<close>

definition get_next_date :: "date \<Rightarrow> py_error + date" where
  "get_next_date dt =
     (if \<not> valid_date dt then Inl ValueError
      else if day dt < days_in_month (year dt) (month dt)
        then Inr (Date (day dt + 1) (month dt) (year dt))
      else if month dt < 12 then Inr (Date 1 (month dt + 1) (year dt))
      else if year dt < 9999 then Inr (Date 1 1 (year dt + 1))
      else Inl OverflowError)"

section \<open>Billing simulation\<close>

text \<open>The variables of the loop of \<^verbatim>\<open>cost_calculation\<close>.\<close>

record bill_state =
  b_count :: int
  b_final_cost :: rat
  b_cost :: rat
  b_cost_val :: rat
  b_current_minute :: int
  b_date :: date
  b_surcharge_factor :: rat

text \<open>Lines 142 to 145: at minute 1440 the date advances, the minute becomes 1 and the
  surcharge of the new date is looked up. The result is (minute, date, surcharge).\<close>

definition cost_rollover :: "env \<Rightarrow> int \<Rightarrow> bill_state \<Rightarrow> py_error + (int \<times> date \<times> rat)" where
  "cost_rollover E post_code s =
     (if b_current_minute s = 1440 then
        (case get_next_date (b_date s) of
           Inl e \<Rightarrow> Inl e
         | Inr next_date \<Rightarrow>
            (case get_date_surcharge E next_date post_code of
               Inl e \<Rightarrow> Inl e
             | Inr surcharge \<Rightarrow> Inr (1, next_date, surcharge)))
      else Inr (b_current_minute s, b_date s, b_surcharge_factor s))"

text \<open>Lines 148 to 152: the value of \<^verbatim>\<open>cost_val\<close> that prices the minute.\<close>

definition minute_cost_val :: "rat \<Rightarrow> rat \<Rightarrow> int \<Rightarrow> rat" where
  "minute_cost_val cost cost_val current_minute =
     (if \<not> is_peak current_minute then cost / 2 else cost_val)"

text \<open>Lines 163 to 170: \<^verbatim>\<open>cost\<close> and \<^verbatim>\<open>cost_val\<close> after the minute, given the next
  minute and whether the minute just billed was peak.\<close>

definition recompute_cost :: "rat \<Rightarrow> int \<Rightarrow> rat \<Rightarrow> rat \<Rightarrow> int \<Rightarrow> bool \<Rightarrow> rat \<times> rat" where
  "recompute_cost base_price time_required cost cost_val current_minute is_current_minute_peak =
     (if is_peak current_minute \<and> \<not> is_current_minute_peak then
        (base_price / of_int (time_required + 1) / 100,
         base_price / of_int (time_required + 1) / 100)
      else if \<not> is_peak current_minute \<and> is_current_minute_peak then
        (base_price / of_int (time_required + 1) / 100,
         base_price / of_int (time_required + 1) / 100 / 2)
      else (cost, cost_val))"

text \<open>One pass through the body of the loop (lines 140 to 170).\<close>

definition cost_step ::
  "env \<Rightarrow> int \<Rightarrow> int \<Rightarrow> int \<Rightarrow> rat \<Rightarrow> int \<Rightarrow> int \<Rightarrow> bill_state \<Rightarrow> py_error + bill_state" where
  "cost_step E initial_state final_state capacity base_price time_required post_code s =
     (case cost_rollover E post_code s of
        Inl e \<Rightarrow> Inl e
      | Inr (current_minute, dt, surcharge_factor) \<Rightarrow>
          let is_current_minute_peak = is_peak current_minute;
              cost_val = minute_cost_val (b_cost s) (b_cost_val s) current_minute;
              price = (of_int final_state - of_int initial_state) / 100 * of_int capacity
                        * cost_val * surcharge_factor;
              cc = recompute_cost base_price time_required (b_cost s) cost_val
                     (current_minute + 1) is_current_minute_peak
          in Inr \<lparr>b_count = b_count s + 1, b_final_cost = b_final_cost s + price,
                  b_cost = fst cc, b_cost_val = snd cc,
                  b_current_minute = current_minute + 1, b_date = dt,
                  b_surcharge_factor = surcharge_factor\<rparr>)"

lemma cost_step_count:
  "cost_step E initial_state final_state capacity base_price time_required post_code s = Inr s'
   \<Longrightarrow> b_count s' = b_count s + 1"
  by (auto simp: cost_step_def Let_def split: sum.splits prod.splits)

function cost_loop ::
  "env \<Rightarrow> int \<Rightarrow> int \<Rightarrow> int \<Rightarrow> rat \<Rightarrow> int \<Rightarrow> int \<Rightarrow> bill_state \<Rightarrow> py_error + rat" where
  "cost_loop E initial_state final_state capacity base_price time_required post_code s =
     (if b_count s \<le> time_required then
        (case cost_step E initial_state final_state capacity base_price time_required post_code s of
           Inl e \<Rightarrow> Inl e
         | Inr s' \<Rightarrow> cost_loop E initial_state final_state capacity base_price time_required post_code s')
      else Inr (py_round (b_final_cost s) 2))"
  by pat_completeness auto
termination
  by (relation "measure (\<lambda>(E, i, f, c, bp, tr, pc, s). nat (tr + 1 - b_count s))")
     (auto dest: cost_step_count)

declare cost_loop.simps [simp del]

text \<open>The state before the first pass (lines 117 to 132).\<close>

definition cost_init :: "rat \<Rightarrow> int \<Rightarrow> int \<Rightarrow> date \<Rightarrow> rat \<Rightarrow> bill_state" where
  "cost_init base_price time_required current_minute start_date surcharge_factor =
     \<lparr>b_count = 0, b_final_cost = 0,
      b_cost = base_price / of_int (time_required + 1) / 100,
      b_cost_val = base_price / of_int (time_required + 1) / 100,
      b_current_minute = current_minute, b_date = start_date,
      b_surcharge_factor = surcharge_factor\<rparr>"

definition cost_calculation ::
  "env \<Rightarrow> int \<Rightarrow> int \<Rightarrow> int \<Rightarrow> rat \<Rightarrow> rat \<Rightarrow> int \<times> int \<Rightarrow> date \<Rightarrow> int \<Rightarrow> py_error + rat" where
  "cost_calculation E initial_state final_state capacity power_kw cost start_time start_date post_code =
     (case time_calculation initial_state final_state capacity power_kw of
        Inl e \<Rightarrow> Inl e
      | Inr time \<Rightarrow>
          let time_required = py_int time; base_price = cost in
          if time_required + 1 = 0 then Inl ZeroDivisionError
          else
            (case get_date_surcharge E start_date post_code of
               Inl e \<Rightarrow> Inl e
             | Inr surcharge_factor \<Rightarrow>
                 if surcharge_factor = - 1 then Inr (- 1)
                 else cost_loop E initial_state final_state capacity base_price time_required post_code
                        (cost_init base_price time_required
                           (get_minute_from_start_time start_time) start_date surcharge_factor)))"

text \<open>The loop-head states of a run of the loop from \<open>s0\<close>.\<close>

inductive cost_reach ::
  "env \<Rightarrow> int \<Rightarrow> int \<Rightarrow> int \<Rightarrow> rat \<Rightarrow> int \<Rightarrow> int \<Rightarrow> bill_state \<Rightarrow> bill_state \<Rightarrow> bool"
  for E initial_state final_state capacity base_price time_required post_code s0 where
  cost_reach_start: "cost_reach E initial_state final_state capacity base_price time_required post_code s0 s0"
| cost_reach_step:
    "cost_reach E initial_state final_state capacity base_price time_required post_code s0 s \<Longrightarrow>
     b_count s \<le> time_required \<Longrightarrow>
     cost_step E initial_state final_state capacity base_price time_required post_code s = Inr s' \<Longrightarrow>
     cost_reach E initial_state final_state capacity base_price time_required post_code s0 s'"

section \<open>Solar savings\<close>

text \<open>\<^verbatim>\<open>get_location_id\<close>: the id of the first record whose name is the suburb in upper
  case; \<open>None\<close> is the returned \<^verbatim>\<open>-1\<close>.\<close>

definition py_upper :: "string \<Rightarrow> string" where
  "py_upper s =
     map (\<lambda>c. if c \<in> set ''abcdefghijklmnopqrstuvwxyz''
               then char_of (of_char c - (32 :: nat)) else c) s"

definition get_location_id :: "env \<Rightarrow> int \<Rightarrow> string \<Rightarrow> string option" where
  "get_location_id E post_code suburb =
     (case locations E post_code of
        None \<Rightarrow> None
      | Some data \<Rightarrow>
         (case find (\<lambda>d. fst d = py_upper suburb) data of
            None \<Rightarrow> None
          | Some d \<Rightarrow> Some (snd d)))"

text \<open>\<^verbatim>\<open>get_date_solar_data\<close>: the weather record of the date; \<open>None\<close> is the returned
  \<^verbatim>\<open>-1\<close>.\<close>

definition get_date_solar_data :: "env \<Rightarrow> string \<Rightarrow> date \<Rightarrow> weather_data option" where
  "get_date_solar_data E location_id start_date = weather E location_id start_date"

text \<open>
  \<^verbatim>\<open>get_date_daylight_hours\<close>: the minutes between sunrise and sunset, read from the
  text of the time difference. The text of a negative difference starts with
  \<^verbatim>\<open>-1 day,\<close> and \<^verbatim>\<open>int\<close> raises on it.
\<close>

definition valid_time :: "int \<times> int \<times> int \<Rightarrow> bool" where
  "valid_time t =
     (0 \<le> fst t \<and> fst t \<le> 23 \<and> 0 \<le> fst (snd t) \<and> fst (snd t) \<le> 59 \<and>
      0 \<le> snd (snd t) \<and> snd (snd t) \<le> 59)"

definition seconds_of :: "int \<times> int \<times> int \<Rightarrow> int" where
  "seconds_of t = fst t * 3600 + fst (snd t) * 60 + snd (snd t)"

definition get_date_daylight_hours ::
  "date \<Rightarrow> int \<times> int \<times> int \<Rightarrow> int \<times> int \<times> int \<Rightarrow> py_error + int" where
  "get_date_daylight_hours dt sunrise_time sunset_time =
     (if \<not> (valid_date dt \<and> valid_time sunrise_time \<and> valid_time sunset_time) then Inl ValueError
      else
        let diff = seconds_of sunset_time - seconds_of sunrise_time in
        if diff < 0 then Inl ValueError
        else Inr ((diff div 3600) * 60 + (diff mod 3600) div 60))"

text \<open>The values the simulation keeps for the date it is on: the surcharge, and what it
  reads from the weather record of the date (lines 651 to 671, and again 677 to 694).\<close>

record solar_day =
  sd_date :: date
  sd_date_surcharge :: rat
  sd_si :: rat
  sd_dl :: int
  sd_sunrise_in_minutes :: int
  sd_sunset_in_minutes :: int
  sd_cc :: "rat list"

definition load_solar_day :: "env \<Rightarrow> string \<Rightarrow> int \<Rightarrow> date \<Rightarrow> py_error + solar_day option" where
  "load_solar_day E location_id post_code dt =
     (case get_date_surcharge E dt post_code of
        Inl e \<Rightarrow> Inl e
      | Inr date_surcharge \<Rightarrow>
         (case get_date_solar_data E location_id dt of
            None \<Rightarrow> Inr None
          | Some solar_data \<Rightarrow>
             (case get_date_daylight_hours dt (sunrise solar_data) (sunset solar_data) of
                Inl e \<Rightarrow> Inl e
              | Inr dl \<Rightarrow>
                 Inr (Some \<lparr>sd_date = dt, sd_date_surcharge = date_surcharge,
                            sd_si = sunHours solar_data, sd_dl = dl,
                            sd_sunrise_in_minutes = convert_time_to_minutes_passed (sunrise solar_data),
                            sd_sunset_in_minutes = convert_time_to_minutes_passed (sunset solar_data),
                            sd_cc = map snd (sort_key fst (hourlyWeatherHistory solar_data))\<rparr>))))"

text \<open>Python's list indexing: a negative index counts from the end, an index out of
  range raises \<^verbatim>\<open>IndexError\<close>.\<close>

definition py_index :: "'a list \<Rightarrow> int \<Rightarrow> py_error + 'a" where
  "py_index xs i =
     (if 0 \<le> i \<and> i < int (length xs) then Inr (xs ! nat i)
      else if i < 0 \<and> 0 \<le> int (length xs) + i then Inr (xs ! nat (int (length xs) + i))
      else Inl IndexError)"

text \<open>The hour index of line 709.\<close>

definition cloud_hour :: "int \<Rightarrow> int \<Rightarrow> int" where
  "cloud_hour charging_hours_spent_in_sunlight time =
     \<lfloor>(of_int (charging_hours_spent_in_sunlight * 60 + time) :: rat) / 1440 * 24\<rfloor>"

text \<open>
  Lines 674 to 696: the rollover of the solar loop. The result is the day record, the
  variable \<^verbatim>\<open>time\<close> and the minute; \<open>Inr None\<close> is the early \<^verbatim>\<open>return -1\<close>.
\<close>

definition solar_rollover ::
  "env \<Rightarrow> string \<Rightarrow> int \<Rightarrow> solar_day \<Rightarrow> int \<Rightarrow> int \<Rightarrow> py_error + (solar_day \<times> int \<times> int) option" where
  "solar_rollover E location_id post_code sd time current_minute =
     (if current_minute = 1440 then
        (case get_next_date (sd_date sd) of
           Inl e \<Rightarrow> Inl e
         | Inr next_date \<Rightarrow>
            (case load_solar_day E location_id post_code next_date of
               Inl e \<Rightarrow> Inl e
             | Inr None \<Rightarrow> Inr None
             | Inr (Some sd') \<Rightarrow> Inr (Some (sd', sd_sunrise_in_minutes sd', 1))))
      else Inr (Some (sd, time, current_minute)))"

text \<open>
  Lines 698 to 715: the minute is counted as daylight, and a window is closed at the end
  of an hour in daylight, at sunset, or at the last minute when in daylight. The result
  is (charging_hours_spent_in_sunlight, savings, daylight_minutes).
\<close>

definition solar_minute ::
  "rat \<Rightarrow> rat \<Rightarrow> int \<Rightarrow> solar_day \<Rightarrow> int \<Rightarrow> int \<Rightarrow> int \<Rightarrow> rat \<Rightarrow> int \<Rightarrow> int
     \<Rightarrow> py_error + (int \<times> rat \<times> int)" where
  "solar_minute power_kw cost time_required sd time charging_hours_spent_in_sunlight count
       savings daylight_minutes current_minute =
     (let in_daylight = (sd_sunrise_in_minutes sd \<le> current_minute
                          \<and> current_minute \<le> sd_sunset_in_minutes sd);
          daylight_minutes1 = (if in_daylight then daylight_minutes + 1 else daylight_minutes)
      in
      if (in_daylight \<and> (current_minute + 1) mod 60 = 0)
           \<or> current_minute = sd_sunset_in_minutes sd
           \<or> (count = time_required - 1 \<and> in_daylight)
      then
        (case py_index (sd_cc sd) (cloud_hour (charging_hours_spent_in_sunlight + 1) time) of
           Inl e \<Rightarrow> Inl e
         | Inr current_cc \<Rightarrow>
             if sd_dl sd = 0 then Inl ZeroDivisionError
             else
               let dl_hours = of_int (sd_dl sd) / 60;
                   charging_mins_in_hour = of_int daylight_minutes1 / 60;
                   energy_generated = sd_si sd * charging_mins_in_hour / dl_hours
                                        * (1 - current_cc / 100) * 50 * (2 / 10);
                   current_cost = (if is_peak current_minute then cost / 100 else cost / (100 * 2))
               in Inr (charging_hours_spent_in_sunlight + 1,
                       savings + (power_kw * charging_mins_in_hour - energy_generated)
                                   * current_cost * sd_date_surcharge sd,
                       0))
      else Inr (charging_hours_spent_in_sunlight, savings, daylight_minutes1))"

function solar_loop ::
  "env \<Rightarrow> string \<Rightarrow> int \<Rightarrow> rat \<Rightarrow> rat \<Rightarrow> int \<Rightarrow> solar_day \<Rightarrow> int \<Rightarrow> int \<Rightarrow> int \<Rightarrow> rat \<Rightarrow> int \<Rightarrow> int
     \<Rightarrow> py_error + rat option" where
  "solar_loop E location_id post_code power_kw cost time_required sd time
       charging_hours_spent_in_sunlight count savings daylight_minutes current_minute =
     (if count < time_required then
        (case solar_rollover E location_id post_code sd time current_minute of
           Inl e \<Rightarrow> Inl e
         | Inr None \<Rightarrow> Inr None
         | Inr (Some (sd1, time1, current_minute1)) \<Rightarrow>
            (case solar_minute power_kw cost time_required sd1 time1
                    charging_hours_spent_in_sunlight count savings daylight_minutes current_minute1 of
               Inl e \<Rightarrow> Inl e
             | Inr (chs1, savings1, daylight_minutes1) \<Rightarrow>
                 solar_loop E location_id post_code power_kw cost time_required sd1 time1
                   chs1 (count + 1) savings1 daylight_minutes1 (current_minute1 + 1)))
      else Inr (Some savings))"
  by pat_completeness auto
termination
  by (relation "measure (\<lambda>(E, l, pc, pw, c, tr, sd, t, chs, count, sv, dm, cm). nat (tr - count))")
     auto

declare solar_loop.simps [simp del]

text \<open>From the given variables the loop ends in an \<^verbatim>\<open>IndexError\<close>, whatever the savings
  and the daylight minutes collected so far are.\<close>

definition index_error_from ::
  "env \<Rightarrow> string \<Rightarrow> int \<Rightarrow> rat \<Rightarrow> rat \<Rightarrow> int \<Rightarrow> solar_day \<Rightarrow> int \<Rightarrow> int \<Rightarrow> int \<Rightarrow> int \<Rightarrow> bool" where
  "index_error_from E location_id post_code power_kw cost time_required sd time
       charging_hours_spent_in_sunlight count current_minute =
     (\<forall>savings daylight_minutes.
        solar_loop E location_id post_code power_kw cost time_required sd time
          charging_hours_spent_in_sunlight count savings daylight_minutes current_minute
        = Inl IndexError)"

text \<open>The body of the loop over the dates (lines 644 to 720): the simulation that starts
  on one date. \<open>Inr None\<close> is the early \<^verbatim>\<open>return -1\<close>.\<close>

definition solar_savings_on_date ::
  "env \<Rightarrow> int \<Rightarrow> int \<Rightarrow> int \<Rightarrow> rat \<Rightarrow> rat \<Rightarrow> int \<times> int \<Rightarrow> int \<Rightarrow> string \<Rightarrow> date
     \<Rightarrow> py_error + rat option" where
  "solar_savings_on_date E initial_state final_state capacity power_kw cost start_time post_code
       location_id dt =
     (case time_calculation initial_state final_state capacity power_kw of
        Inl e \<Rightarrow> Inl e
      | Inr t \<Rightarrow>
         (case load_solar_day E location_id post_code dt of
            Inl e \<Rightarrow> Inl e
          | Inr None \<Rightarrow> Inr None
          | Inr (Some sd) \<Rightarrow>
              solar_loop E location_id post_code power_kw cost (py_int t) sd
                (get_minute_from_start_time start_time) 0 0 0 0
                (get_minute_from_start_time start_time)))"

text \<open>\<^verbatim>\<open>get_reference_date\<close>. The year 2021 is fixed in the source. A \<^verbatim>\<open>ValueError\<close> of
  either \<^verbatim>\<open>replace\<close> inside the \<^verbatim>\<open>try\<close> block leads to 28 February.\<close>

definition get_reference_date :: "env \<Rightarrow> date \<Rightarrow> py_error + date" where
  "get_reference_date E dt =
     (let reference_year = 2021 in
      if \<not> valid_date dt then Inl ValueError
      else if toordinal (today E) - 1 \<le> toordinal dt \<and> year dt = 2021 then
        (if valid_date (Date (day dt) (month dt) 2020) then Inr (Date (day dt) (month dt) 2020)
         else Inl ValueError)
      else
        let year_difference = year dt - reference_year;
            reference_date = Date (day dt) (month dt) (year dt - year_difference)
        in
        if valid_date reference_date then
          (if toordinal (today E) - 1 \<le> toordinal reference_date then
             (if valid_date (Date (day dt) (month dt) 2020) then Inr (Date (day dt) (month dt) 2020)
              else Inr (Date 28 2 (year dt - year_difference)))
           else Inr reference_date)
        else Inr (Date 28 2 (year dt - year_difference)))"

definition get_preceding_dates_for_average :: "date \<Rightarrow> date list" where
  "get_preceding_dates_for_average dt =
     [dt, Date (day dt) (month dt) (year dt - 1), Date (day dt) (month dt) (year dt - 2)]"

text \<open>Lines 634 to 639: the dates that are simulated. A date earlier than yesterday is
  simulated itself; any other date is replaced by three reference dates.\<close>

definition solar_dates :: "env \<Rightarrow> date \<Rightarrow> py_error + date list" where
  "solar_dates E start_date =
     (if \<not> valid_date start_date then Inl ValueError
      else if toordinal start_date < toordinal (today E) - 1 then Inr [start_date]
      else (case get_reference_date E start_date of
              Inl e \<Rightarrow> Inl e
            | Inr reference_date \<Rightarrow> Inr (get_preceding_dates_for_average reference_date)))"

text \<open>Lines 641 to 721: the loop over the dates, and the mean of the collected savings.\<close>

fun solar_dates_loop ::
  "env \<Rightarrow> int \<Rightarrow> int \<Rightarrow> int \<Rightarrow> rat \<Rightarrow> rat \<Rightarrow> int \<times> int \<Rightarrow> int \<Rightarrow> string \<Rightarrow> date list \<Rightarrow> rat list
     \<Rightarrow> py_error + rat" where
  "solar_dates_loop E initial_state final_state capacity power_kw cost start_time post_code
       location_id [] savings_from_solar_energy_generated =
     (if savings_from_solar_energy_generated = [] then Inl ZeroDivisionError
      else Inr (sum_list savings_from_solar_energy_generated
                  / of_nat (length savings_from_solar_energy_generated)))"
| "solar_dates_loop E initial_state final_state capacity power_kw cost start_time post_code
       location_id (dt # dates) savings_from_solar_energy_generated =
     (case solar_savings_on_date E initial_state final_state capacity power_kw cost start_time
             post_code location_id dt of
        Inl e \<Rightarrow> Inl e
      | Inr None \<Rightarrow> Inr (- 1)
      | Inr (Some savings) \<Rightarrow>
          solar_dates_loop E initial_state final_state capacity power_kw cost start_time post_code
            location_id dates (savings_from_solar_energy_generated @ [savings]))"

definition calculate_solar_energy_savings_from_any_date ::
  "env \<Rightarrow> int \<Rightarrow> int \<Rightarrow> int \<Rightarrow> rat \<Rightarrow> rat \<Rightarrow> int \<times> int \<Rightarrow> date \<Rightarrow> int \<Rightarrow> string \<Rightarrow> py_error + rat" where
  "calculate_solar_energy_savings_from_any_date E initial_state final_state capacity power_kw cost
       start_time start_date post_code suburb =
     (case get_location_id E post_code suburb of
        None \<Rightarrow> Inr (- 1)
      | Some location_id \<Rightarrow>
         (case solar_dates E start_date of
            Inl e \<Rightarrow> Inl e
          | Inr dates \<Rightarrow>
              solar_dates_loop E initial_state final_state capacity power_kw cost start_time
                post_code location_id dates []))"

section \<open>The facade\<close>

text \<open>
  What \<^verbatim>\<open>get_charging_cost\<close> returns: the number \<^verbatim>\<open>-1\<close>, the message that the solar
  energy covered the cost, or a dollar sign followed by the text of a rounded number.
\<close>

datatype charging_cost = Unavailable | Fully_Offset | Dollars rat

definition get_charging_cost ::
  "env \<Rightarrow> int \<Rightarrow> int \<Rightarrow> int \<Rightarrow> int \<Rightarrow> int \<times> int \<Rightarrow> date \<Rightarrow> int \<Rightarrow> string \<Rightarrow> py_error + charging_cost"
where
  "get_charging_cost E initial_state final_state capacity charger_configuration start_time
       start_date post_code suburb =
     (let power_kw = fst (get_power charger_configuration);
          cost = snd (get_power charger_configuration) in
      case cost_calculation E initial_state final_state capacity power_kw cost start_time
             start_date post_code of
        Inl e \<Rightarrow> Inl e
      | Inr total_cost \<Rightarrow>
         (case calculate_solar_energy_savings_from_any_date E initial_state final_state capacity
                 power_kw cost start_time start_date post_code suburb of
            Inl e \<Rightarrow> Inl e
          | Inr money_saved \<Rightarrow>
              if money_saved = - 1 then Inr Unavailable
              else
                let final_cost = total_cost - money_saved in
                if total_cost \<le> money_saved then Inr Fully_Offset
                else if 1 < final_cost then Inr (Dollars (py_round final_cost 2))
                else Inr (Dollars (py_round final_cost 4))))"

section \<open>Sample data\<close>

text \<open>
  Concrete data for the examples below: the four Victorian school terms of 2021, a
  location record for postcode 3000, and one weather record (sunrise 06:00, sunset 18:00,
  eight sun hours, 30 percent cloud cover in each of the 24 hours) for every date.
\<close>

definition vic_terms :: "(date \<times> date) list" where
  "vic_terms =
     [(Date 27 1 2021, Date 1 4 2021), (Date 19 4 2021, Date 25 6 2021),
      (Date 12 7 2021, Date 17 9 2021), (Date 4 10 2021, Date 17 12 2021)]"

definition sample_weather :: weather_data where
  "sample_weather =
     \<lparr>sunrise = (6, 0, 0), sunset = (18, 0, 0), sunHours = 8,
      hourlyWeatherHistory = map (\<lambda>h. (int h, 30)) [0..<24]\<rparr>"

definition sample_env :: "date \<Rightarrow> (date \<times> string) list option \<Rightarrow> env" where
  "sample_env now holidays =
     \<lparr>today = now, termdates = [(''vic'', vic_terms)], public_holidays = holidays,
      locations = (\<lambda>post_code. if post_code = 3000 then Some [(''MELBOURNE'', ''loc1'')] else None),
      weather = (\<lambda>location_id dt. if location_id = ''loc1'' then Some sample_weather else None)\<rparr>"

text \<open>What \<open>load_solar_day\<close> makes of the sample weather record on a date in term
  without a surcharge.\<close>

definition sample_day :: "date \<Rightarrow> solar_day" where
  "sample_day dt =
     \<lparr>sd_date = dt, sd_date_surcharge = 1, sd_si = 8, sd_dl = 720,
      sd_sunrise_in_minutes = 360, sd_sunset_in_minutes = 1080, sd_cc = replicate 24 30\<rparr>"

section \<open>Properties of the surcharge lookup\<close>

lemma holiday_states_of_records:
  "public_holidays E = Some records \<Longrightarrow>
   get_date_data E dt = Some (map snd (filter (\<lambda>obj. fst obj = dt) records))"
  by (simp add: get_date_data_def)

lemma mem_holiday_states:
  "state \<in> set (map snd (filter (\<lambda>obj. fst obj = dt) records)) \<longleftrightarrow> (dt, state) \<in> set records"
  by force

lemma get_date_surcharge_in_state:
  "postcode_state code = Some state \<Longrightarrow> valid_date dt \<Longrightarrow>
   is_date_in_school_term E dt state = Inr in_term \<Longrightarrow>
   get_date_surcharge E dt code =
     (if \<not> in_term then Inr (11 / 10)
      else if weekday dt < 5 then Inr (11 / 10)
      else (case get_date_data E dt of
              None \<Rightarrow> Inl TypeError
            | Some states_list \<Rightarrow> if state \<in> set states_list then Inr (11 / 10) else Inr 1))"
  by (simp add: get_date_surcharge_def is_date_weekday_def)

text \<open>
  C1. The claim: the lookup returns 1.1 exactly when the date is a weekday outside the
  school term or a public holiday, and 1.0 otherwise, so 1.0 for an ordinary weekday
  inside term. The code tests \<^verbatim>\<open>not in_term or is_weekday\<close>: every Monday to Friday gets
  1.1, and so does every date outside the term. What holds: for a postcode with a
  jurisdiction and a calendar date, the result is 1.1 whenever the date is a weekday or
  lies outside the term (the registry is not asked); and when the registry answers, the
  result is 1.1 exactly when the date is a weekday, or lies outside the term, or is
  listed as a holiday of the jurisdiction, and 1 otherwise.
\<close>

theorem surcharge_weekday_or_out_of_term_or_holiday:
  assumes "postcode_state code = Some state" and "valid_date dt"
    and "is_date_in_school_term E dt state = Inr in_term"
  shows "(weekday dt < 5 \<or> \<not> in_term \<longrightarrow> get_date_surcharge E dt code = Inr (11 / 10)) \<and>
         (\<forall>records. public_holidays E = Some records \<longrightarrow>
            get_date_surcharge E dt code =
              Inr (if weekday dt < 5 \<or> \<not> in_term \<or> (dt, state) \<in> set records then 11 / 10 else 1))"
  using assms
  by (auto simp: get_date_surcharge_in_state holiday_states_of_records mem_holiday_states
           simp del: set_map)

text \<open>Saturday 6 February 2021, inside term and no holiday listed: the result is 1.\<close>

theorem surcharge_weekday_or_out_of_term_or_holiday_witness:
  "postcode_state 3000 = Some ''vic'' \<and> valid_date (Date 6 2 2021) \<and>
   is_date_in_school_term (sample_env (Date 1 6 2023) (Some [])) (Date 6 2 2021) ''vic'' = Inr True \<and>
   get_date_surcharge (sample_env (Date 1 6 2023) (Some [])) (Date 6 2 2021) 3000 = Inr 1"
proof -
  let ?E = "sample_env (Date 1 6 2023) (Some [])"
  have p: "postcode_state 3000 = Some ''vic''" by code_simp
  have v: "valid_date (Date 6 2 2021)" by code_simp
  have t: "is_date_in_school_term ?E (Date 6 2 2021) ''vic'' = Inr True" by code_simp
  have h: "public_holidays ?E = Some []" by (simp add: sample_env_def)
  have w: "\<not> weekday (Date 6 2 2021) < 5" by code_simp
  from surcharge_weekday_or_out_of_term_or_holiday [OF p v t] h w
  have "get_date_surcharge ?E (Date 6 2 2021) 3000 = Inr 1" by simp
  with p v t show ?thesis by blast
qed

text \<open>Wednesday 3 February 2021 is an ordinary weekday inside Victoria's first term with
  no holiday listed, and the lookup does not return 1.\<close>

theorem surcharge_weekday_in_term_counterexample:
  "weekday (Date 3 2 2021) < 5 \<and>
   is_date_in_school_term (sample_env (Date 1 6 2023) (Some [])) (Date 3 2 2021) ''vic'' = Inr True \<and>
   get_date_data (sample_env (Date 1 6 2023) (Some [])) (Date 3 2 2021) = Some [] \<and>
   postcode_state 3000 = Some ''vic'' \<and>
   get_date_surcharge (sample_env (Date 1 6 2023) (Some [])) (Date 3 2 2021) 3000 \<noteq> Inr 1"
  by code_simp

text \<open>
  C3. The claim: when the public-holiday registry gives no successful response,
  \<^verbatim>\<open>get_date_surcharge\<close> hands the failure to its caller as a signal value and raises
  nothing. \<^verbatim>\<open>get_date_data\<close> does return the signal \<^verbatim>\<open>-1\<close>, but \<^verbatim>\<open>get_date_surcharge\<close>
  tests \<^verbatim>\<open>state in states_list\<close> on it without a check: for Saturday 6 February 2021
  (inside Victoria's first term) and postcode 3000 the lookup ends in a \<^verbatim>\<open>TypeError\<close>.
\<close>

theorem registry_failure_raises:
  "get_date_surcharge (sample_env (Date 1 6 2023) None) (Date 6 2 2021) 3000 = Inl TypeError"
  by code_simp

text \<open>
  C8. The claim: a Saturday or Sunday always gets 1.1, inside or outside the term. In
  the code \<^verbatim>\<open>is_date_weekday\<close> is true for Monday to Friday, so a Saturday or Sunday
  gets 1.1 only when it lies outside the term or is listed as a holiday. What holds: for
  a Saturday or Sunday, a postcode with a jurisdiction and a registry that answers, the
  result is 1.1 when the date lies outside the term or is listed as a holiday of the
  jurisdiction, and 1 otherwise.
\<close>

theorem weekend_surcharge:
  assumes "postcode_state code = Some state" and "valid_date dt" and "5 \<le> weekday dt"
    and "is_date_in_school_term E dt state = Inr in_term"
    and "public_holidays E = Some records"
  shows "get_date_surcharge E dt code =
           Inr (if \<not> in_term \<or> (dt, state) \<in> set records then 11 / 10 else 1)"
  using assms
  by (auto simp: get_date_surcharge_in_state holiday_states_of_records mem_holiday_states
           simp del: set_map)

text \<open>Saturday 9 January 2021 lies before Victoria's first term: the result is 1.1.\<close>

theorem weekend_surcharge_witness:
  "postcode_state 3000 = Some ''vic'' \<and> valid_date (Date 9 1 2021) \<and> 5 \<le> weekday (Date 9 1 2021) \<and>
   is_date_in_school_term (sample_env (Date 1 6 2023) (Some [])) (Date 9 1 2021) ''vic'' = Inr False \<and>
   get_date_surcharge (sample_env (Date 1 6 2023) (Some [])) (Date 9 1 2021) 3000 = Inr (11 / 10)"
proof -
  let ?E = "sample_env (Date 1 6 2023) (Some [])"
  have p: "postcode_state 3000 = Some ''vic''" by code_simp
  have v: "valid_date (Date 9 1 2021)" by code_simp
  have w: "5 \<le> weekday (Date 9 1 2021)" by code_simp
  have t: "is_date_in_school_term ?E (Date 9 1 2021) ''vic'' = Inr False" by code_simp
  have h: "public_holidays ?E = Some []" by (simp add: sample_env_def)
  from weekend_surcharge [OF p v w t h]
  have "get_date_surcharge ?E (Date 9 1 2021) 3000 = Inr (11 / 10)" by simp
  with p v w t show ?thesis by blast
qed

text \<open>Saturday 6 February 2021 lies inside Victoria's first term and no holiday is
  listed: the lookup does not return 1.1.\<close>

theorem weekend_in_term_counterexample:
  "weekday (Date 6 2 2021) = 5 \<and> postcode_state 3000 = Some ''vic'' \<and>
   get_date_surcharge (sample_env (Date 1 6 2023) (Some [])) (Date 6 2 2021) 3000 \<noteq> Inr (11 / 10)"
  by code_simp

section \<open>Properties of the charging time\<close>

lemma round_half_even_mono: "x \<le> y \<Longrightarrow> round_half_even x \<le> round_half_even y"
proof -
  assume xy: "x \<le> y"
  have fl: "\<lfloor>x\<rfloor> \<le> \<lfloor>y\<rfloor>" using xy by (rule floor_mono)
  have bx: "round_half_even x \<le> \<lfloor>x\<rfloor> + 1" and by': "\<lfloor>y\<rfloor> \<le> round_half_even y"
    by (simp_all add: round_half_even_def Let_def)
  show ?thesis
  proof (cases "\<lfloor>x\<rfloor> < \<lfloor>y\<rfloor>")
    case True
    with bx by' show ?thesis by linarith
  next
    case False
    with fl have eq: "\<lfloor>x\<rfloor> = \<lfloor>y\<rfloor>" by simp
    with xy show ?thesis by (auto simp: round_half_even_def Let_def)
  qed
qed

lemma py_round_mono: "x \<le> y \<Longrightarrow> py_round x n \<le> py_round y n"
  unfolding py_round_def
  by (intro divide_right_mono round_half_even_mono mult_right_mono) (simp_all add: round_half_even_mono)

lemma py_round_zero: "py_round 0 n = 0"
  by (simp add: py_round_def round_half_even_def)

lemma py_round_nonneg: "0 \<le> x \<Longrightarrow> 0 \<le> py_round x n"
  using py_round_mono [of 0 x n] by (simp add: py_round_zero)

text \<open>
  C9. For a session with \<open>initial_state < final_state\<close>, a positive capacity and a
  positive power, \<^verbatim>\<open>time_calculation\<close> returns
  \<open>round(((final - initial) / 100) * capacity / power * 60, 2)\<close>, the result is not
  negative, it does not decrease when the charge difference or the capacity grows, and
  it does not increase when the power grows. (Rounding to two places makes the
  monotonicity weak: a small change of an argument can leave the result the same.)
\<close>

theorem charging_minutes_properties:
  assumes "initial_state < final_state" and "0 < capacity" and "0 < power_kw"
  shows "time_calculation initial_state final_state capacity power_kw =
           Inr (py_round ((of_int final_state - of_int initial_state) / 100 * of_int capacity
                            / power_kw * 60) 2) \<and>
         (\<exists>t. time_calculation initial_state final_state capacity power_kw = Inr t \<and> 0 \<le> t) \<and>
         (\<forall>i' f' t t'. final_state - initial_state \<le> f' - i' \<and>
             time_calculation initial_state final_state capacity power_kw = Inr t \<and>
             time_calculation i' f' capacity power_kw = Inr t' \<longrightarrow> t \<le> t') \<and>
         (\<forall>c' t t'. capacity \<le> c' \<and>
             time_calculation initial_state final_state capacity power_kw = Inr t \<and>
             time_calculation initial_state final_state c' power_kw = Inr t' \<longrightarrow> t \<le> t') \<and>
         (\<forall>p' t t'. power_kw \<le> p' \<and>
             time_calculation initial_state final_state capacity power_kw = Inr t \<and>
             time_calculation initial_state final_state capacity p' = Inr t' \<longrightarrow> t' \<le> t)"
proof -
  let ?d = "(of_int final_state - of_int initial_state) / 100 :: rat"
  have d: "0 < ?d" using assms(1) by simp
  have c: "(0::rat) < of_int capacity" using assms(2) by simp
  have eq: "time_calculation initial_state final_state capacity power_kw =
              Inr (py_round (?d * of_int capacity / power_kw * 60) 2)"
    using assms(3) by (simp add: time_calculation_def Let_def)
  have nonneg: "0 \<le> ?d * of_int capacity / power_kw * 60"
    using d c assms(3) by simp
  have m1: "t \<le> t'" if "final_state - initial_state \<le> f' - i'"
      "time_calculation initial_state final_state capacity power_kw = Inr t"
      "time_calculation i' f' capacity power_kw = Inr t'" for i' f' t t'
  proof -
    have "?d \<le> (of_int f' - of_int i') / 100"
    proof -
      have "(of_int (final_state - initial_state) :: rat) \<le> of_int (f' - i')"
        using that(1) by (simp only: of_int_le_iff)
      then show ?thesis by simp
    qed
    then have "?d * of_int capacity / power_kw * 60
                 \<le> (of_int f' - of_int i') / 100 * of_int capacity / power_kw * 60"
      using c assms(3) by (simp add: divide_right_mono mult_right_mono)
    then show ?thesis
      using that(2,3) assms(3) by (auto simp: time_calculation_def Let_def intro: py_round_mono)
  qed
  have m2: "t \<le> t'" if "capacity \<le> c'"
      "time_calculation initial_state final_state capacity power_kw = Inr t"
      "time_calculation initial_state final_state c' power_kw = Inr t'" for c' t t'
  proof -
    have "(of_int capacity :: rat) \<le> of_int c'" using that(1) by simp
    then have "?d * of_int capacity / power_kw * 60 \<le> ?d * of_int c' / power_kw * 60"
      using d assms(3) by (simp add: divide_right_mono mult_left_mono)
    then show ?thesis
      using that(2,3) assms(3) by (auto simp: time_calculation_def Let_def intro: py_round_mono)
  qed
  have m3: "t' \<le> t" if "power_kw \<le> p'"
      "time_calculation initial_state final_state capacity power_kw = Inr t"
      "time_calculation initial_state final_state capacity p' = Inr t'" for p' t t'
  proof -
    have p': "0 < p'" using that(1) assms(3) by simp
    have "0 \<le> ?d * of_int capacity" using d c by simp
    then have "?d * of_int capacity / p' \<le> ?d * of_int capacity / power_kw"
      using that(1) assms(3) by (simp add: divide_left_mono)
    then have "?d * of_int capacity / p' * 60 \<le> ?d * of_int capacity / power_kw * 60"
      by (rule mult_right_mono) simp
    then show ?thesis
      using that(2,3) assms(3) p' by (auto simp: time_calculation_def Let_def intro: py_round_mono)
  qed
  show ?thesis
    using eq py_round_nonneg [OF nonneg] m1 m2 m3 by blast
qed

text \<open>From 20 to 80 percent of 60 kWh: 196.36 minutes at 11 kW, and no more at 22 kW.\<close>

theorem charging_minutes_properties_witness:
  "(20::int) < 80 \<and> (0::int) < 60 \<and> (0::rat) < 11 \<and>
   time_calculation 20 80 60 11 = Inr (4909 / 25) \<and>
   (\<exists>t t'. time_calculation 20 80 60 11 = Inr t \<and> time_calculation 20 80 60 22 = Inr t'
      \<and> t' \<le> t)"
proof -
  have e: "py_round (2160 / 11) 2 = 4909 / 25"
    by code_simp
  have h: "(20::int) < 80" "(0::int) < 60" "(0::rat) < 11" by simp_all
  note t = charging_minutes_properties [OF h]
  from t have a: "time_calculation 20 80 60 11 = Inr (4909 / 25)"
    using e by simp
  obtain t' where b: "time_calculation 20 80 60 22 = Inr t'"
    by (simp add: time_calculation_def)
  from t have m: "\<forall>p' t t'. 11 \<le> p' \<and> time_calculation 20 80 60 11 = Inr t \<and>
      time_calculation 20 80 60 p' = Inr t' \<longrightarrow> t' \<le> t"
    by (elim conjE)
  have "t' \<le> 4909 / 25"
    using m [rule_format, of 22 "4909 / 25" t'] a b by simp
  with a b h show ?thesis by blast
qed

section \<open>Properties of the billing simulation\<close>

lemma cost_rollover_minute:
  "cost_rollover E post_code s = Inr (m, d, sf) \<Longrightarrow>
   (b_current_minute s = 1440 \<and> m = 1) \<or> (b_current_minute s \<noteq> 1440 \<and> m = b_current_minute s)"
  by (auto simp: cost_rollover_def split: if_splits sum.splits)

lemma cost_reach_invariant:
  assumes "cost_reach E initial_state final_state capacity base_price time_required post_code
             (cost_init base_price time_required m0 d0 sf0) s"
  shows "b_cost s = base_price / of_int (time_required + 1) / 100 \<and>
         (is_peak (b_current_minute s) \<longrightarrow>
            b_cost_val s = base_price / of_int (time_required + 1) / 100)"
  using assms
proof (induction rule: cost_reach.induct)
  case cost_reach_start
  show ?case by (simp add: cost_init_def)
next
  case (cost_reach_step s s')
  obtain m d sf where r: "cost_rollover E post_code s = Inr (m, d, sf)"
    using cost_reach_step.hyps(3) by (auto simp: cost_step_def split: sum.splits)
  have m: "is_peak m \<Longrightarrow> m = b_current_minute s"
    using cost_rollover_minute [OF r] by (auto simp: is_peak_def)
  show ?case
    using cost_reach_step.hyps(3) cost_reach_step.IH r m
    by (auto simp: cost_step_def Let_def minute_cost_val_def recompute_cost_def)
qed

text \<open>
  C6. The claim: in every simulated minute the per-minute price is
  \<open>price / (charging_minutes + 1) / 100\<close> inside the peak window [360, 1080) and half of
  it outside, however often the session crosses a boundary of the window. In the code the
  divisor is \<open>time_required + 1\<close>, where \<open>time_required = int(time)\<close> is the charging time
  cut to whole minutes. With that divisor the claim holds: in every pass of the loop,
  for the minute \<open>m\<close> that is billed, \<^verbatim>\<open>cost_val\<close> is
  \<open>base_price / (time_required + 1) / 100\<close> when \<open>360 \<le> m < 1080\<close> and half of it
  otherwise, and this is the value that enters the price added to the total.
\<close>

theorem minute_price_never_compounds:
  assumes "cost_reach E initial_state final_state capacity base_price time_required post_code
             (cost_init base_price time_required m0 d0 sf0) s"
    and "cost_rollover E post_code s = Inr (m, d, sf)"
  shows "minute_cost_val (b_cost s) (b_cost_val s) m =
           (if 360 \<le> m \<and> m < 1080 then base_price / of_int (time_required + 1) / 100
            else base_price / of_int (time_required + 1) / 100 / 2) \<and>
         (\<forall>s'. cost_step E initial_state final_state capacity base_price time_required post_code s
                  = Inr s' \<longrightarrow>
            b_final_cost s' = b_final_cost s +
              (of_int final_state - of_int initial_state) / 100 * of_int capacity
                * (if 360 \<le> m \<and> m < 1080 then base_price / of_int (time_required + 1) / 100
                   else base_price / of_int (time_required + 1) / 100 / 2) * sf)"
proof -
  note inv = cost_reach_invariant [OF assms(1)]
  have m: "is_peak m \<Longrightarrow> m = b_current_minute s"
    using cost_rollover_minute [OF assms(2)] by (auto simp: is_peak_def)
  have v: "minute_cost_val (b_cost s) (b_cost_val s) m =
           (if 360 \<le> m \<and> m < 1080 then base_price / of_int (time_required + 1) / 100
            else base_price / of_int (time_required + 1) / 100 / 2)"
    using inv m by (auto simp: minute_cost_val_def is_peak_def)
  show ?thesis
    using v assms(2) by (auto simp: cost_step_def Let_def)
qed

text \<open>A session that starts at 05:59: the second pass bills minute 360 at the full price.\<close>

theorem minute_price_never_compounds_witness:
  "cost_reach (sample_env (Date 1 6 2023) (Some [])) 20 80 60 (25 / 2) 196 3000
     (cost_init (25 / 2) 196 359 (Date 6 2 2021) 1)
     \<lparr>b_count = 1, b_final_cost = 9 / 788, b_cost = 1 / 1576, b_cost_val = 1 / 1576,
      b_current_minute = 360, b_date = Date 6 2 2021, b_surcharge_factor = 1\<rparr> \<and>
   cost_rollover (sample_env (Date 1 6 2023) (Some [])) 3000
     \<lparr>b_count = 1, b_final_cost = 9 / 788, b_cost = 1 / 1576, b_cost_val = 1 / 1576,
      b_current_minute = 360, b_date = Date 6 2 2021, b_surcharge_factor = 1\<rparr>
     = Inr (360, Date 6 2 2021, 1) \<and>
   minute_cost_val (1 / 1576) (1 / 1576) 360 = (25 / 2) / of_int (196 + 1) / 100"
proof -
  let ?E = "sample_env (Date 1 6 2023) (Some [])"
  let ?s0 = "cost_init (25 / 2) 196 359 (Date 6 2 2021) 1"
  let ?s1 = "\<lparr>b_count = 1, b_final_cost = 9 / 788, b_cost = 1 / 1576, b_cost_val = 1 / 1576,
      b_current_minute = 360, b_date = Date 6 2 2021, b_surcharge_factor = 1\<rparr>"
  have g: "b_count ?s0 \<le> 196" by (simp add: cost_init_def)
  have st: "cost_step ?E 20 80 60 (25 / 2) 196 3000 ?s0 = Inr ?s1"
    by (simp add: cost_step_def cost_rollover_def cost_init_def minute_cost_val_def
          recompute_cost_def is_peak_def Let_def)
  have re: "cost_reach ?E 20 80 60 (25 / 2) 196 3000 ?s0 ?s1"
    by (rule cost_reach_step [OF cost_reach_start g st])
  have ro: "cost_rollover ?E 3000 ?s1 = Inr (360, Date 6 2 2021, 1)"
    by (simp add: cost_rollover_def)
  from minute_price_never_compounds [OF re ro]
  have "minute_cost_val (1 / 1576) (1 / 1576) 360 = (25 / 2) / of_int (196 + 1) / 100"
    by simp
  with re ro show ?thesis by blast
qed

text \<open>From 20 to 80 percent of 60 kWh at 11 kW the charging time is 196.36 minutes; the
  price of a peak minute is 12.5 / 197 / 100 and not 12.5 / 197.36 / 100.\<close>

theorem minute_price_formula_counterexample:
  "time_calculation 20 80 60 11 = Inr (4909 / 25) \<and> py_int (4909 / 25) = 196 \<and>
   is_peak 600 \<and>
   minute_cost_val (b_cost (cost_init (25 / 2) 196 600 (Date 6 2 2021) 1))
       (b_cost_val (cost_init (25 / 2) 196 600 (Date 6 2 2021) 1)) 600
     \<noteq> (25 / 2) / (4909 / 25 + 1) / 100"
  by code_simp


section \<open>Properties of the solar simulation\<close>



text \<open>
  C4. The claim: for a start date that has not yet occurred, the savings are the mean of
  three simulations, the first on the nearest already-passed day with the same day and
  month. \<^verbatim>\<open>get_reference_date\<close> fixes \<^verbatim>\<open>reference_year = 2021\<close>, so the first
  date is in 2021 or 2020 whatever today's date is: on 1 June 2023 the start date
  1 January 2024 is simulated on the first of January of 2021, 2020 and 2019, while the
  nearest first of January that has passed is that of 2023.
\<close>

theorem reference_year_fixed:
  "solar_dates (sample_env (Date 1 6 2023) (Some [])) (Date 1 1 2024)
     = Inr [Date 1 1 2021, Date 1 1 2020, Date 1 1 2019]"
  by code_simp




subsection \<open>The hour index into the cloud cover list\<close>

lemma solar_minute_night:
  "\<not> (sd_sunrise_in_minutes sd \<le> cm \<and> cm \<le> sd_sunset_in_minutes sd) \<Longrightarrow>
   cm \<noteq> sd_sunset_in_minutes sd \<Longrightarrow>
   solar_minute pw c tr sd t chs count sv dm cm = Inr (chs, sv, dm)"
  by (auto simp: solar_minute_def Let_def)

lemma solar_minute_day_quiet:
  "sd_sunrise_in_minutes sd \<le> cm \<Longrightarrow> cm < sd_sunset_in_minutes sd \<Longrightarrow>
   (cm + 1) mod 60 \<noteq> 0 \<Longrightarrow> count \<noteq> tr - 1 \<Longrightarrow>
   solar_minute pw c tr sd t chs count sv dm cm = Inr (chs, sv, dm + 1)"
  by (auto simp: solar_minute_def Let_def)

lemma solar_minute_close_error:
  "sd_sunrise_in_minutes sd \<le> cm \<Longrightarrow> cm \<le> sd_sunset_in_minutes sd \<Longrightarrow>
   (cm + 1) mod 60 = 0 \<or> cm = sd_sunset_in_minutes sd \<Longrightarrow>
   py_index (sd_cc sd) (cloud_hour (chs + 1) t) = Inl e \<Longrightarrow>
   solar_minute pw c tr sd t chs count sv dm cm = Inl e"
  by (auto simp: solar_minute_def Let_def)

lemma solar_minute_close_ok:
  "sd_sunrise_in_minutes sd \<le> cm \<Longrightarrow> cm \<le> sd_sunset_in_minutes sd \<Longrightarrow>
   (cm + 1) mod 60 = 0 \<or> cm = sd_sunset_in_minutes sd \<Longrightarrow>
   py_index (sd_cc sd) (cloud_hour (chs + 1) t) = Inr current_cc \<Longrightarrow> sd_dl sd \<noteq> 0 \<Longrightarrow>
   \<exists>sv'. solar_minute pw c tr sd t chs count sv dm cm = Inr (chs + 1, sv', 0)"
  by (auto simp: solar_minute_def Let_def)

lemma solar_loop_same_day:
  "count < tr \<Longrightarrow> cm \<noteq> 1440 \<Longrightarrow>
   solar_loop E l pc pw c tr sd t chs count sv dm cm =
     (case solar_minute pw c tr sd t chs count sv dm cm of
        Inl e \<Rightarrow> Inl e
      | Inr (chs1, sv1, dm1) \<Rightarrow> solar_loop E l pc pw c tr sd t chs1 (count + 1) sv1 dm1 (cm + 1))"
  by (subst solar_loop.simps) (simp add: solar_rollover_def)

lemma solar_loop_night_skip:
  "sd_sunrise_in_minutes sd \<le> sd_sunset_in_minutes sd \<Longrightarrow>
   count + int k \<le> tr \<Longrightarrow> cm + int k \<le> 1440 \<Longrightarrow>
   cm + int k \<le> sd_sunrise_in_minutes sd \<or> sd_sunset_in_minutes sd < cm \<Longrightarrow>
   solar_loop E l pc pw c tr sd t chs count sv dm cm
     = solar_loop E l pc pw c tr sd t chs (count + int k) sv dm (cm + int k)"
proof (induction k arbitrary: count cm)
  case 0
  show ?case by simp
next
  case (Suc k)
  have g: "count < tr" "cm \<noteq> 1440" using Suc.prems by auto
  have n: "solar_minute pw c tr sd t chs count sv dm cm = Inr (chs, sv, dm)"
    using Suc.prems by (intro solar_minute_night) auto
  have step: "solar_loop E l pc pw c tr sd t chs count sv dm cm
                = solar_loop E l pc pw c tr sd t chs (count + 1) sv dm (cm + 1)"
    by (simp add: solar_loop_same_day [OF g] n)
  have "solar_loop E l pc pw c tr sd t chs (count + 1) sv dm (cm + 1)
          = solar_loop E l pc pw c tr sd t chs (count + 1 + int k) sv dm (cm + 1 + int k)"
    using Suc.prems by (intro Suc.IH) auto
  with step show ?case by (simp add: ac_simps)
qed

lemma solar_loop_day_skip:
  "sd_sunrise_in_minutes sd \<le> cm \<Longrightarrow> cm + int k \<le> sd_sunset_in_minutes sd \<Longrightarrow>
   cm mod 60 + int k \<le> 59 \<Longrightarrow> count + int k < tr \<Longrightarrow> cm + int k \<le> 1440 \<Longrightarrow>
   solar_loop E l pc pw c tr sd t chs count sv dm cm
     = solar_loop E l pc pw c tr sd t chs (count + int k) sv (dm + int k) (cm + int k)"
proof (induction k arbitrary: count cm dm)
  case 0
  show ?case by simp
next
  case (Suc k)
  have r: "0 \<le> cm mod 60" "cm mod 60 \<le> 58" using Suc.prems(3) by simp_all
  have "(cm + 1) mod 60 = (cm mod 60 + 1) mod 60" by (simp add: mod_simps)
  also have "\<dots> = cm mod 60 + 1" using r by (intro mod_pos_pos_trivial) simp_all
  finally have nx: "(cm + 1) mod 60 = cm mod 60 + 1" .
  have nh: "(cm + 1) mod 60 \<noteq> 0" using nx r by simp
  have g: "count < tr" "cm \<noteq> 1440" using Suc.prems by auto
  have n: "solar_minute pw c tr sd t chs count sv dm cm = Inr (chs, sv, dm + 1)"
    using Suc.prems nh by (intro solar_minute_day_quiet) auto
  have step: "solar_loop E l pc pw c tr sd t chs count sv dm cm
                = solar_loop E l pc pw c tr sd t chs (count + 1) sv (dm + 1) (cm + 1)"
    by (simp add: solar_loop_same_day [OF g] n)
  have "solar_loop E l pc pw c tr sd t chs (count + 1) sv (dm + 1) (cm + 1)
          = solar_loop E l pc pw c tr sd t chs (count + 1 + int k) sv (dm + 1 + int k) (cm + 1 + int k)"
    using Suc.prems nx by (intro Suc.IH) auto
  with step show ?case by (simp add: ac_simps)
qed

text \<open>Rules that move \<open>index_error_from\<close> backwards over a stretch of the loop:
  minutes outside daylight, the close-out of a window, a full hour of daylight, and the
  rollover at minute 1440.\<close>

lemma index_error_night:
  "sd_sunrise_in_minutes sd \<le> sd_sunset_in_minutes sd \<Longrightarrow>
   count + int k \<le> tr \<Longrightarrow> cm + int k \<le> 1440 \<Longrightarrow>
   cm + int k \<le> sd_sunrise_in_minutes sd \<or> sd_sunset_in_minutes sd < cm \<Longrightarrow>
   index_error_from E l pc pw c tr sd t chs (count + int k) (cm + int k) \<Longrightarrow>
   index_error_from E l pc pw c tr sd t chs count cm"
  unfolding index_error_from_def
  by (simp add: solar_loop_night_skip [where k = k])

lemma index_error_close:
  assumes "count < tr" and "cm \<noteq> 1440"
    and "sd_sunrise_in_minutes sd \<le> cm" and "cm \<le> sd_sunset_in_minutes sd"
    and "(cm + 1) mod 60 = 0 \<or> cm = sd_sunset_in_minutes sd"
    and "py_index (sd_cc sd) (cloud_hour (chs + 1) t) = Inr current_cc" and "sd_dl sd \<noteq> 0"
    and "index_error_from E l pc pw c tr sd t (chs + 1) (count + 1) (cm + 1)"
  shows "index_error_from E l pc pw c tr sd t chs count cm"
  unfolding index_error_from_def
proof (intro allI)
  fix sv dm
  obtain sv' where "solar_minute pw c tr sd t chs count sv dm cm = Inr (chs + 1, sv', 0)"
    using solar_minute_close_ok [OF assms(3,4,5,6,7)] by blast
  then show "solar_loop E l pc pw c tr sd t chs count sv dm cm = Inl IndexError"
    using assms(8) by (simp add: solar_loop_same_day [OF assms(1,2)] index_error_from_def)
qed

lemma index_error_hour:
  assumes "cm mod 60 = 0" and "sd_sunrise_in_minutes sd \<le> cm"
    and "cm + 59 \<le> sd_sunset_in_minutes sd" and "count + 59 < tr" and "cm + 60 \<le> 1440"
    and "py_index (sd_cc sd) (cloud_hour (chs + 1) t) = Inr current_cc" and "sd_dl sd \<noteq> 0"
    and "index_error_from E l pc pw c tr sd t (chs + 1) (count + 60) (cm + 60)"
  shows "index_error_from E l pc pw c tr sd t chs count cm"
  unfolding index_error_from_def
proof (intro allI)
  fix sv dm
  have sk: "solar_loop E l pc pw c tr sd t chs count sv dm cm
              = solar_loop E l pc pw c tr sd t chs (count + int 59) sv (dm + int 59) (cm + int 59)"
    using assms by (intro solar_loop_day_skip) auto
  have "index_error_from E l pc pw c tr sd t chs (count + 59) (cm + 59)"
  proof (rule index_error_close [OF _ _ _ _ _ assms(6,7)])
    show "(cm + 59 + 1) mod 60 = 0 \<or> cm + 59 = sd_sunset_in_minutes sd"
      using assms(1) by (simp add: mod_simps)
    show "index_error_from E l pc pw c tr sd t (chs + 1) (count + 59 + 1) (cm + 59 + 1)"
      using assms(8) by (simp add: ac_simps)
  qed (use assms in auto)
  with sk show "solar_loop E l pc pw c tr sd t chs count sv dm cm = Inl IndexError"
    by (simp add: index_error_from_def)
qed

lemma index_error_hour_fails:
  assumes "cm mod 60 = 0" and "sd_sunrise_in_minutes sd \<le> cm"
    and "cm + 59 \<le> sd_sunset_in_minutes sd" and "count + 59 < tr" and "cm + 60 \<le> 1440"
    and "py_index (sd_cc sd) (cloud_hour (chs + 1) t) = Inl IndexError"
  shows "index_error_from E l pc pw c tr sd t chs count cm"
  unfolding index_error_from_def
proof (intro allI)
  fix sv dm
  have sk: "solar_loop E l pc pw c tr sd t chs count sv dm cm
              = solar_loop E l pc pw c tr sd t chs (count + int 59) sv (dm + int 59) (cm + int 59)"
    using assms by (intro solar_loop_day_skip) auto
  have cl: "(cm + 59 + 1) mod 60 = 0 \<or> cm + 59 = sd_sunset_in_minutes sd"
    using assms(1) by (simp add: mod_simps)
  have "solar_minute pw c tr sd t chs (count + 59) sv (dm + 59) (cm + 59) = Inl IndexError"
    using assms cl by (intro solar_minute_close_error) auto
  moreover have "count + 59 < tr" "cm + 59 \<noteq> 1440" using assms by auto
  ultimately show "solar_loop E l pc pw c tr sd t chs count sv dm cm = Inl IndexError"
    using sk by (simp add: solar_loop_same_day)
qed

lemma index_error_rollover:
  assumes "count < tr" and "get_next_date (sd_date sd) = Inr next_date"
    and "load_solar_day E l pc next_date = Inr (Some sd')"
    and "1 < sd_sunrise_in_minutes sd'" and "sd_sunrise_in_minutes sd' \<le> sd_sunset_in_minutes sd'"
    and "index_error_from E l pc pw c tr sd' (sd_sunrise_in_minutes sd') chs (count + 1) 2"
  shows "index_error_from E l pc pw c tr sd t chs count 1440"
  unfolding index_error_from_def
proof (intro allI)
  fix sv dm
  have n: "solar_minute pw c tr sd' (sd_sunrise_in_minutes sd') chs count sv dm 1 = Inr (chs, sv, dm)"
    using assms(4,5) by (intro solar_minute_night) auto
  show "solar_loop E l pc pw c tr sd t chs count sv dm 1440 = Inl IndexError"
    using assms(1,2,3,6) n
    by (subst solar_loop.simps) (simp add: solar_rollover_def index_error_from_def)
qed


lemma load_first_day:
  "load_solar_day (sample_env (Date 1 6 2023) (Some [])) ''loc1'' 3000 (Date 6 2 2021)
     = Inr (Some (sample_day (Date 6 2 2021)))"
  by code_simp

lemma load_second_day:
  "load_solar_day (sample_env (Date 1 6 2023) (Some [])) ''loc1'' 3000 (Date 7 2 2021)
     = Inr (Some (sample_day (Date 7 2 2021)))"
  by code_simp

lemma next_of_first_day: "get_next_date (sd_date (sample_day (Date 6 2 2021))) = Inr (Date 7 2 2021)"
  by code_simp

lemmas sample_day_simps = sample_day_def py_index_def cloud_hour_def

lemma second_day_index_error:
  "index_error_from E l pc pw c 1800 (sample_day d) 360 13 1439 360"
  apply (rule index_error_hour [where current_cc = 30]; simp add: sample_day_simps)
  apply (rule index_error_hour [where current_cc = 30]; simp add: sample_day_simps)
  apply (rule index_error_hour [where current_cc = 30]; simp add: sample_day_simps)
  apply (rule index_error_hour [where current_cc = 30]; simp add: sample_day_simps)
  apply (rule index_error_hour_fails; simp add: sample_day_simps)
  done

lemma first_day_evening_index_error:
  "index_error_from (sample_env (Date 1 6 2023) (Some [])) ''loc1'' 3000 pw c 1800
     (sample_day (Date 6 2 2021)) 360 13 721 1081"
proof -
  let ?E = "sample_env (Date 1 6 2023) (Some [])"
  have a: "index_error_from ?E ''loc1'' 3000 pw c 1800 (sample_day (Date 7 2 2021)) 360 13
             (1081 + int 358) (2 + int 358)"
    using second_day_index_error by simp
  have b: "index_error_from ?E ''loc1'' 3000 pw c 1800 (sample_day (Date 7 2 2021))
             (sd_sunrise_in_minutes (sample_day (Date 7 2 2021))) 13 (1080 + 1) 2"
    using index_error_night [OF _ _ _ _ a] by (simp add: sample_day_def)
  have c: "index_error_from ?E ''loc1'' 3000 pw c 1800 (sample_day (Date 6 2 2021)) 360 13
             (721 + int 359) (1081 + int 359)"
    using index_error_rollover [OF _ next_of_first_day load_second_day _ _ b]
    by (simp add: sample_day_def)
  show ?thesis
    using index_error_night [OF _ _ _ _ c] by (simp add: sample_day_def)
qed

lemma first_day_index_error:
  "index_error_from (sample_env (Date 1 6 2023) (Some [])) ''loc1'' 3000 pw c 1800
     (sample_day (Date 6 2 2021)) 360 0 0 360"
  apply (rule index_error_hour [where current_cc = 30]; simp add: sample_day_simps)
  apply (rule index_error_hour [where current_cc = 30]; simp add: sample_day_simps)
  apply (rule index_error_hour [where current_cc = 30]; simp add: sample_day_simps)
  apply (rule index_error_hour [where current_cc = 30]; simp add: sample_day_simps)
  apply (rule index_error_hour [where current_cc = 30]; simp add: sample_day_simps)
  apply (rule index_error_hour [where current_cc = 30]; simp add: sample_day_simps)
  apply (rule index_error_hour [where current_cc = 30]; simp add: sample_day_simps)
  apply (rule index_error_hour [where current_cc = 30]; simp add: sample_day_simps)
  apply (rule index_error_hour [where current_cc = 30]; simp add: sample_day_simps)
  apply (rule index_error_hour [where current_cc = 30]; simp add: sample_day_simps)
  apply (rule index_error_hour [where current_cc = 30]; simp add: sample_day_simps)
  apply (rule index_error_hour [where current_cc = 30]; simp add: sample_day_simps)
  apply (rule index_error_close [where current_cc = 30]; simp add: sample_day_simps)
  apply (simp add: first_day_evening_index_error [unfolded sample_day_def])
  done

text \<open>
  C10. The claim: the hour index \<open>floor((charging_hours_spent_in_sunlight * 60 + time)
  / 1440 * 24)\<close> stays within 0..23 for every session, multi-day sessions included, so the
  access to the cloud cover list never fails. \<^verbatim>\<open>charging_hours_spent_in_sunlight\<close> is not
  reset at the rollover and counts the windows of all days. Charging 60 kWh from 0 to
  100 percent at 2 kW takes 1800 minutes; started at 06:00 with sunrise 06:00 and sunset
  18:00, the first day closes 13 windows, and the fifth window of the second day asks for
  index 24 of the 24 hourly values: the computation ends in an \<^verbatim>\<open>IndexError\<close>.
\<close>

theorem cloud_cover_index_out_of_range:
  "calculate_solar_energy_savings_from_any_date (sample_env (Date 1 6 2023) (Some []))
     0 100 60 2 5 (6, 0) (Date 6 2 2021) 3000 ''Melbourne'' = Inl IndexError"
proof -
  let ?E = "sample_env (Date 1 6 2023) (Some [])"
  have l: "get_location_id ?E 3000 ''Melbourne'' = Some ''loc1''" by code_simp
  have d: "solar_dates ?E (Date 6 2 2021) = Inr [Date 6 2 2021]" by code_simp
  have t: "time_calculation 0 100 60 2 = Inr 1800" by code_simp
  have i: "py_int 1800 = 1800" by (simp add: py_int_def)
  have m: "get_minute_from_start_time (6, 0) = 360" by (simp add: get_minute_from_start_time_def)
  have "solar_loop ?E ''loc1'' 3000 2 5 1800 (sample_day (Date 6 2 2021)) 360 0 0 0 0 360
          = Inl IndexError"
    using first_day_index_error by (simp add: index_error_from_def)
  then have "solar_savings_on_date ?E 0 100 60 2 5 (6, 0) 3000 ''loc1'' (Date 6 2 2021)
          = Inl IndexError"
    by (simp add: solar_savings_on_date_def t i m load_first_day)
  then show ?thesis
    by (simp add: calculate_solar_energy_savings_from_any_date_def l d)
qed


section \<open>Properties of the facade\<close>

text \<open>
  C2. The claim: when the surcharge lookup fails at any point of the billing simulation,
  also after a midnight rollover, the facade returns the sentinel \<^verbatim>\<open>-1\<close>. A session
  that starts on Friday 5 February 2021 at 23:59 rolls over to a Saturday inside term;
  with a registry that gives no successful response the lookup raises (see C3), the loop
  of \<^verbatim>\<open>cost_calculation\<close> has no check after the rollover, and the facade ends in a
  \<^verbatim>\<open>TypeError\<close> instead of returning \<^verbatim>\<open>-1\<close>.
\<close>

theorem rollover_registry_failure_raises:
  "get_charging_cost (sample_env (Date 1 6 2023) None) 20 80 60 4 (23, 59) (Date 5 2 2021) 3000
     ''Melbourne'' = Inl TypeError"
  by code_simp



end
